theory Spec2Isabelle
  imports Main "HOL-Library.AList" "HOL-Library.Char_ord" "HOL-Library.List_Lexorder"
    "HOL-Library.Multiset"
begin

section \<open>Values and documents\<close>

text \<open>
  A naive \<open>datetime\<close> is the number of microseconds since \<open>datetime.min\<close>, so that
  \<open>datetime.min\<close> is \<open>0\<close> and the order of datetimes is the order of the numbers.
\<close>

type_synonym datetime = nat

definition datetime_min :: datetime where
  "datetime_min = 0"

text \<open>
  A bson \<open>ObjectId\<close> holds the bytes it was built from, twelve for an identifier the
  store assigns; here they are kept as the lower-case hexadecimal digits that \<open>str\<close>
  prints, two for each byte.
\<close>

datatype objectid = Oid string

datatype pyval =
    PNone
  | PBool bool
  | PStr string
  | PDatetime datetime
  | PObjectId objectid

text \<open>A Python \<open>dict\<close> with string keys, in insertion order.\<close>

type_synonym doc = "(string \<times> pyval) list"

text \<open>\<open>d.get(k, default)\<close>\<close>

definition dict_get :: "doc \<Rightarrow> string \<Rightarrow> pyval \<Rightarrow> pyval" where
  "dict_get d k dflt = (case map_of d k of None \<Rightarrow> dflt | Some v \<Rightarrow> v)"

text \<open>\<open>bool(v)\<close>: \<open>None\<close>, \<open>False\<close> and the empty string are falsy.\<close>

fun py_bool :: "pyval \<Rightarrow> bool" where
  "py_bool PNone = False"
| "py_bool (PBool b) = b"
| "py_bool (PStr s) = (s \<noteq> [])"
| "py_bool (PDatetime t) = True"
| "py_bool (PObjectId i) = True"

datatype exn =
    HTTPException nat string
  | KeyError
  | TypeError

text \<open>
  \<open>a < b\<close> as \<open>sorted\<close> evaluates it on two keys: values of one kind compare,
  values of different kinds (and \<open>None\<close> with anything) raise \<open>TypeError\<close>.
\<close>

fun py_lt :: "pyval \<Rightarrow> pyval \<Rightarrow> exn + bool" where
  "py_lt (PDatetime a) (PDatetime b) = Inr (a < b)"
| "py_lt (PStr a) (PStr b) = Inr (a < b)"
| "py_lt (PBool a) (PBool b) = Inr (a < b)"
| "py_lt (PObjectId (Oid a)) (PObjectId (Oid b)) = Inr (a < b)"
| "py_lt a b = Inl TypeError"

section \<open>The bson identifier syntax\<close>

text \<open>
  The bson library on a \<open>str\<close>: \<open>ObjectId(s)\<close> takes a string of length 24 and reads
  it with \<open>bytes.fromhex\<close>, and \<open>ObjectId.is_valid(s)\<close> says whether that succeeds.
  \<open>bytes.fromhex\<close> reads bytes of two adjacent hexadecimal digits, of either case, and
  skips ASCII whitespace before a byte; any other character, and a digit without its
  pair, is an error. So a string of 24 characters with blanks between its byte pairs is
  valid and gives fewer than twelve bytes. A path string is kept as its bytes here; a
  character outside ASCII is an error for \<open>bytes.fromhex\<close> however it is counted.
\<close>

definition is_hex :: "char \<Rightarrow> bool" where
  "is_hex c = (c \<in> set ''0123456789abcdefABCDEF'')"

definition is_space :: "char \<Rightarrow> bool" where
  "is_space c = (c \<in> set [CHR '' '', CHR 0x09, CHR 0x0A, CHR 0x0B, CHR 0x0C, CHR 0x0D])"

definition lower_hex :: "char \<Rightarrow> char" where
  "lower_hex c =
     (if c = CHR ''A'' then CHR ''a'' else if c = CHR ''B'' then CHR ''b''
      else if c = CHR ''C'' then CHR ''c'' else if c = CHR ''D'' then CHR ''d''
      else if c = CHR ''E'' then CHR ''e'' else if c = CHR ''F'' then CHR ''f'' else c)"

text \<open>\<open>bytes.fromhex(s)\<close>: the bytes read, as lower-case digits, or \<open>None\<close> for its error.\<close>

fun fromhex :: "string \<Rightarrow> string option" where
  "fromhex [] = Some []"
| "fromhex [c] = (if is_space c then Some [] else None)"
| "fromhex (c # d # cs) =
     (if is_space c then fromhex (d # cs)
      else if is_hex c \<and> is_hex d
        then map_option (\<lambda>h. lower_hex c # lower_hex d # h) (fromhex cs)
      else None)"

declare fromhex.simps [simp del]

definition is_valid :: "string \<Rightarrow> bool" where
  "is_valid s = (length s = 24 \<and> fromhex s \<noteq> None)"

text \<open>
  \<open>ObjectId(s)\<close> for a string that \<open>is_valid\<close> accepts: the bytes that
  \<open>bytes.fromhex\<close> reads. On any other string the constructor raises \<open>InvalidId\<close>;
  the handlers build an identifier from a path string only after \<open>is_valid\<close>, and
  \<open>create_task\<close> from the text of the identifier the store assigned, so that branch
  is never taken by them and holds no bytes here.
\<close>

definition ObjectId :: "string \<Rightarrow> objectid" where
  "ObjectId s = Oid (case fromhex s of Some h \<Rightarrow> h | None \<Rightarrow> [])"

fun str_oid :: "objectid \<Rightarrow> string" where
  "str_oid (Oid h) = h"

section \<open>The document store\<close>

text \<open>
  The collection \<open>task\<close> of the database, in the store's order, and the log of the
  operations the service has sent to the store. An update is logged with the
  \<open>$set\<close> document it carries.
\<close>

datatype db_op =
    FindOne objectid
  | UpdateOne objectid doc
  | DeleteOne objectid
  | InsertOne doc
  | FindAll

record database =
  task :: "doc list"
  oplog :: "db_op list"

definition has_id :: "objectid \<Rightarrow> doc \<Rightarrow> bool" where
  "has_id i d = (map_of d ''_id'' = Some (PObjectId i))"

definition logged :: "db_op \<Rightarrow> database \<Rightarrow> database" where
  "logged op db = db\<lparr>oplog := oplog db @ [op]\<rparr>"

text \<open>\<open>db["task"].find_one({"_id": i})\<close>\<close>

definition find_one :: "database \<Rightarrow> objectid \<Rightarrow> doc option \<times> database" where
  "find_one db i = (find (has_id i) (task db), logged (FindOne i) db)"

text \<open>\<open>{"$set": upd}\<close> applied to one document: each field is overwritten in place, or appended.\<close>

definition apply_set :: "doc \<Rightarrow> doc \<Rightarrow> doc" where
  "apply_set upd d = foldl (\<lambda>acc (k, v). AList.update k v acc) d upd"

fun map_first :: "('a \<Rightarrow> bool) \<Rightarrow> ('a \<Rightarrow> 'a) \<Rightarrow> 'a list \<Rightarrow> 'a list" where
  "map_first P f [] = []"
| "map_first P f (x # xs) = (if P x then f x # xs else x # map_first P f xs)"

fun remove_first :: "('a \<Rightarrow> bool) \<Rightarrow> 'a list \<Rightarrow> 'a list" where
  "remove_first P [] = []"
| "remove_first P (x # xs) = (if P x then xs else x # remove_first P xs)"

text \<open>\<open>db["task"].update_one({"_id": i}, {"$set": upd})\<close>, returning \<open>matched_count\<close>.\<close>

definition update_one :: "database \<Rightarrow> objectid \<Rightarrow> doc \<Rightarrow> nat \<times> database" where
  "update_one db i upd =
     (case find (has_id i) (task db) of
        None \<Rightarrow> (0, logged (UpdateOne i upd) db)
      | Some d \<Rightarrow>
          (1, logged (UpdateOne i upd) (db\<lparr>task := map_first (has_id i) (apply_set upd) (task db)\<rparr>)))"

text \<open>\<open>db["task"].delete_one({"_id": i})\<close>, returning \<open>deleted_count\<close>.\<close>

definition delete_one :: "database \<Rightarrow> objectid \<Rightarrow> nat \<times> database" where
  "delete_one db i =
     (case find (has_id i) (task db) of
        None \<Rightarrow> (0, logged (DeleteOne i) db)
      | Some d \<Rightarrow> (1, logged (DeleteOne i) (db\<lparr>task := remove_first (has_id i) (task db)\<rparr>)))"

section \<open>Serialization\<close>

text \<open>
  A value of a serialized task: a value of the document as it was, the text
  \<open>isoformat()\<close> gives for a datetime, or the text \<open>str\<close> gives for a value.
\<close>

datatype wval =
    Raw pyval
  | IsoString datetime
  | StrOf pyval

type_synonym wire = "(string \<times> wval) list"

text \<open>\<open>str(v)\<close>: the digits of an identifier, a string itself.\<close>

fun py_str :: "pyval \<Rightarrow> wval" where
  "py_str (PObjectId i) = Raw (PStr (str_oid i))"
| "py_str (PStr s) = Raw (PStr s)"
| "py_str v = StrOf v"

text \<open>\<open>if k in doc and isinstance(doc[k], datetime): doc[k] = doc[k].isoformat()\<close>\<close>

definition iso_field :: "string \<Rightarrow> wire \<Rightarrow> wire" where
  "iso_field k w =
     (case map_of w k of
        Some (Raw (PDatetime t)) \<Rightarrow> AList.update k (IsoString t) w
      | _ \<Rightarrow> w)"

definition serialize_task :: "doc option \<Rightarrow> exn + wire" where
  "serialize_task doc =
     (case doc of
        None \<Rightarrow> Inr []
      | Some d \<Rightarrow>
          if d = [] then Inr []
          else (case map_of d ''_id'' of
                  None \<Rightarrow> Inl KeyError
                | Some i \<Rightarrow>
                    Inr (iso_field ''updated_at'' (iso_field ''created_at'' (iso_field ''due_date''
                      (AList.update ''id'' (py_str i)
                        (map (\<lambda>(k, v). (k, Raw v)) (AList.delete ''_id'' d))))))))"

section \<open>Request bodies\<close>

text \<open>
  A field of a request body: not sent, sent as \<open>null\<close>, or sent with a value.
  For \<open>TaskCreate\<close> a field that is not sent takes the default of the class.
\<close>

datatype 'a field = Unset | Null | Val 'a

record TaskCreate =
  tc_title :: string
  tc_priority :: "string field"
  tc_due_date :: "datetime field"
  tc_notes :: "string field"

record TaskUpdate =
  tu_title :: "string field"
  tu_completed :: "bool field"
  tu_priority :: "string field"
  tu_due_date :: "datetime field"
  tu_notes :: "string field"

text \<open>One field of \<open>model_dump(exclude_unset=True)\<close>.\<close>

fun dump_field :: "string \<Rightarrow> ('a \<Rightarrow> pyval) \<Rightarrow> 'a field \<Rightarrow> doc" where
  "dump_field k f Unset = []"
| "dump_field k f Null = [(k, PNone)]"
| "dump_field k f (Val v) = [(k, f v)]"

definition model_dump_exclude_unset :: "TaskUpdate \<Rightarrow> doc" where
  "model_dump_exclude_unset p =
     dump_field ''title'' PStr (tu_title p) @
     dump_field ''completed'' PBool (tu_completed p) @
     dump_field ''priority'' PStr (tu_priority p) @
     dump_field ''due_date'' PDatetime (tu_due_date p) @
     dump_field ''notes'' PStr (tu_notes p)"

text \<open>\<open>{k: v for k, v in payload.model_dump(exclude_unset=True).items() if v is not None}\<close>\<close>

definition build_update :: "TaskUpdate \<Rightarrow> doc" where
  "build_update p = filter (\<lambda>(k, v). v \<noteq> PNone) (model_dump_exclude_unset p)"

section \<open>Handlers\<close>

text \<open>
  A handler takes the database and returns what it returns or raises, with the
  database it leaves. \<open>now\<close> is what \<open>datetime.utcnow()\<close> gives during the call.
\<close>

definition get_task :: "database \<Rightarrow> string \<Rightarrow> (exn + wire) \<times> database" where
  "get_task db task_id =
     (if \<not> is_valid task_id then (Inl (HTTPException 400 ''Invalid task id''), db)
      else
        (case find_one db (ObjectId task_id) of
           (None, db1) \<Rightarrow> (Inl (HTTPException 404 ''Task not found''), db1)
         | (Some d, db1) \<Rightarrow>
             if d = [] then (Inl (HTTPException 404 ''Task not found''), db1)
             else (serialize_task (Some d), db1)))"

definition update_task :: "database \<Rightarrow> datetime \<Rightarrow> string \<Rightarrow> TaskUpdate \<Rightarrow> (exn + wire) \<times> database" where
  "update_task db now task_id payload =
     (if \<not> is_valid task_id then (Inl (HTTPException 400 ''Invalid task id''), db)
      else
        let upd = build_update payload in
        if upd = [] then get_task db task_id
        else
          let upd' = AList.update ''updated_at'' (PDatetime now) upd in
          (case update_one db (ObjectId task_id) upd' of
             (matched_count, db1) \<Rightarrow>
               if matched_count = 0 then (Inl (HTTPException 404 ''Task not found''), db1)
               else (case find_one db1 (ObjectId task_id) of
                       (doc, db2) \<Rightarrow> (serialize_task doc, db2))))"

definition delete_task :: "database \<Rightarrow> string \<Rightarrow> (exn + wire) \<times> database" where
  "delete_task db task_id =
     (if \<not> is_valid task_id then (Inl (HTTPException 400 ''Invalid task id''), db)
      else
        (case delete_one db (ObjectId task_id) of
           (deleted_count, db1) \<Rightarrow>
             if deleted_count = 0 then (Inl (HTTPException 404 ''Task not found''), db1)
             else (Inr [(''ok'', Raw (PBool True))], db1)))"

text \<open>The \<open>$set\<close> document of a toggle, from the document read.\<close>

definition toggle_update :: "doc \<Rightarrow> datetime \<Rightarrow> doc" where
  "toggle_update d now =
     [(''completed'', PBool (\<not> py_bool (dict_get d ''completed'' (PBool False)))),
      (''updated_at'', PDatetime now)]"

definition toggle_task :: "database \<Rightarrow> datetime \<Rightarrow> string \<Rightarrow> (exn + wire) \<times> database" where
  "toggle_task db now task_id =
     (if \<not> is_valid task_id then (Inl (HTTPException 400 ''Invalid task id''), db)
      else
        (case find_one db (ObjectId task_id) of
           (None, db1) \<Rightarrow> (Inl (HTTPException 404 ''Task not found''), db1)
         | (Some d, db1) \<Rightarrow>
             if d = [] then (Inl (HTTPException 404 ''Task not found''), db1)
             else
               (case update_one db1 (ObjectId task_id) (toggle_update d now) of
                  (matched_count, db2) \<Rightarrow>
                    (case find_one db2 (ObjectId task_id) of
                       (doc, db3) \<Rightarrow> (serialize_task doc, db3)))))"

section \<open>Creation\<close>

text \<open>
  Modelled from the spec: the \<open>Task\<close> schema of the module \<open>schemas\<close>, which is not
  among the sources. Its fields are those of the data model: a title, the completion
  flag, the priority, an optional due date and optional notes.
\<close>

record Task =
  t_title :: string
  t_completed :: bool
  t_priority :: string
  t_due_date :: "datetime option"
  t_notes :: "string option"

text \<open>What \<open>payload.priority\<close> reads: the class default \<open>"medium"\<close> when the field was not sent.\<close>

fun priority_of :: "string field \<Rightarrow> string option" where
  "priority_of Unset = Some ''medium''"
| "priority_of Null = None"
| "priority_of (Val s) = Some s"

text \<open>What an optional field with default \<open>None\<close> reads.\<close>

fun optional_of :: "'a field \<Rightarrow> 'a option" where
  "optional_of Unset = None"
| "optional_of Null = None"
| "optional_of (Val v) = Some v"

text \<open>\<open>x or "medium"\<close>: \<open>None\<close> and the empty string are falsy.\<close>

fun or_medium :: "string option \<Rightarrow> string" where
  "or_medium None = ''medium''"
| "or_medium (Some s) = (if s = [] then ''medium'' else s)"

text \<open>The \<open>Task(...)\<close> that \<open>create_task\<close> builds from the request body.\<close>

definition new_task :: "TaskCreate \<Rightarrow> Task" where
  "new_task payload =
     \<lparr>t_title = tc_title payload,
      t_completed = False,
      t_priority = or_medium (priority_of (tc_priority payload)),
      t_due_date = optional_of (tc_due_date payload),
      t_notes = optional_of (tc_notes payload)\<rparr>"

text \<open>
  Modelled from the spec: \<open>create_document\<close> of the module \<open>database\<close>, which is not
  among the sources. The store assigns the identifier (\<open>new_id\<close>, its text),
  \<open>created_at\<close> is stamped, \<open>updated_at\<close> is absent until the first mutation, an optional
  field is stored only when supplied; the text of the new identifier is returned.
\<close>

definition task_document :: "objectid \<Rightarrow> datetime \<Rightarrow> Task \<Rightarrow> doc" where
  "task_document i now t =
     [(''_id'', PObjectId i),
      (''title'', PStr (t_title t)),
      (''completed'', PBool (t_completed t)),
      (''priority'', PStr (t_priority t))] @
     (case t_due_date t of None \<Rightarrow> [] | Some d \<Rightarrow> [(''due_date'', PDatetime d)]) @
     (case t_notes t of None \<Rightarrow> [] | Some n \<Rightarrow> [(''notes'', PStr n)]) @
     [(''created_at'', PDatetime now)]"

definition create_document :: "database \<Rightarrow> datetime \<Rightarrow> string \<Rightarrow> Task \<Rightarrow> string \<times> database" where
  "create_document db now new_id t =
     (let d = task_document (ObjectId new_id) now t
      in (new_id, logged (InsertOne d) (db\<lparr>task := task db @ [d]\<rparr>)))"

definition create_task :: "database \<Rightarrow> datetime \<Rightarrow> string \<Rightarrow> TaskCreate \<Rightarrow> (exn + wire) \<times> database" where
  "create_task db now new_id payload =
     (case create_document db now new_id (new_task payload) of
        (nid, db1) \<Rightarrow>
          (case find_one db1 (ObjectId nid) of
             (doc, db2) \<Rightarrow> (serialize_task doc, db2)))"

section \<open>Listing\<close>

text \<open>
  Modelled from the spec: \<open>get_documents("task", {}, limit=None)\<close> of the module
  \<open>database\<close>, which is not among the sources: all task records, in the store's order.
\<close>

definition get_documents :: "database \<Rightarrow> doc list \<times> database" where
  "get_documents db = (task db, logged FindAll db)"

text \<open>\<open>lambda d: d.get("created_at", datetime.min)\<close>\<close>

definition created_key :: "doc \<Rightarrow> pyval" where
  "created_key d = dict_get d ''created_at'' (PDatetime datetime_min)"

text \<open>
  \<open>sorted(docs, key=..., reverse=True)\<close>: descending in the key, records of equal key in
  the order they had, and the \<open>TypeError\<close> of a comparison raised.
\<close>

fun insert_desc :: "(doc \<Rightarrow> pyval) \<Rightarrow> doc \<Rightarrow> doc list \<Rightarrow> exn + doc list" where
  "insert_desc key x [] = Inr [x]"
| "insert_desc key x (y # ys) =
     (case py_lt (key x) (key y) of
        Inl e \<Rightarrow> Inl e
      | Inr True \<Rightarrow> (case insert_desc key x ys of Inl e \<Rightarrow> Inl e | Inr zs \<Rightarrow> Inr (y # zs))
      | Inr False \<Rightarrow> Inr (x # y # ys))"

fun sorted_desc :: "(doc \<Rightarrow> pyval) \<Rightarrow> doc list \<Rightarrow> exn + doc list" where
  "sorted_desc key [] = Inr []"
| "sorted_desc key (x # xs) =
     (case sorted_desc key xs of Inl e \<Rightarrow> Inl e | Inr ys \<Rightarrow> insert_desc key x ys)"

text \<open>\<open>[serialize_task(d) for d in docs]\<close>\<close>

fun serialize_all :: "doc list \<Rightarrow> exn + wire list" where
  "serialize_all [] = Inr []"
| "serialize_all (d # ds) =
     (case serialize_task (Some d) of
        Inl e \<Rightarrow> Inl e
      | Inr w \<Rightarrow> (case serialize_all ds of Inl e \<Rightarrow> Inl e | Inr ws \<Rightarrow> Inr (w # ws)))"

definition list_tasks :: "database \<Rightarrow> (exn + wire list) \<times> database" where
  "list_tasks db =
     (case get_documents db of
        (docs, db1) \<Rightarrow>
          (case sorted_desc created_key docs of
             Inl e \<Rightarrow> (Inl e, db1)
           | Inr ds \<Rightarrow> (serialize_all ds, db1)))"

section \<open>Diagnostics\<close>

text \<open>
  The texts of the diagnostics are Python strings, whose characters are code points:
  \<open>[:50]\<close> keeps fifty code points. They are lists of code points here.
\<close>

type_synonym ustr = "nat list"

definition ascii :: "string \<Rightarrow> ustr" where
  "ascii s = map of_char s"

definition check_mark :: ustr where
  "check_mark = [9989]"

definition cross_mark :: ustr where
  "cross_mark = [10060]"

definition warning_sign :: ustr where
  "warning_sign = [9888, 65039]"

text \<open>
  What the global \<open>db\<close> answers when it is not \<open>None\<close>: reading its attribute \<open>name\<close>
  raises (\<open>Inl\<close>, with the text of the error), finds no such attribute, or gives the
  name; \<open>list_collection_names()\<close> raises or gives the names.
\<close>

record db_handle =
  name_attr :: "ustr + ustr option"
  list_collection_names :: "ustr + ustr list"

record diagnostics =
  r_backend :: ustr
  r_database :: ustr
  r_database_url :: "ustr option"
  r_database_name :: "ustr option"
  r_connection_status :: ustr
  r_collections :: "ustr list"

definition initial_response :: diagnostics where
  "initial_response =
     \<lparr>r_backend = check_mark @ ascii '' Running'',
      r_database = cross_mark @ ascii '' Not Available'',
      r_database_url = None,
      r_database_name = None,
      r_connection_status = ascii ''Not Connected'',
      r_collections = []\<rparr>"

text \<open>\<open>getenv\<close> is what \<open>os.getenv("DATABASE_URL")\<close> gives.\<close>

definition test_database :: "db_handle option \<Rightarrow> ustr option \<Rightarrow> diagnostics" where
  "test_database db getenv =
     (case db of
        None \<Rightarrow>
          initial_response\<lparr>r_database := warning_sign @ ascii ''  Available but not initialized''\<rparr>
      | Some h \<Rightarrow>
          let r1 = initial_response
                \<lparr>r_database := check_mark @ ascii '' Available'',
                 r_database_url :=
                   Some (if getenv \<noteq> None \<and> getenv \<noteq> Some []
                         then check_mark @ ascii '' Set'' else cross_mark @ ascii '' Not Set'')\<rparr>
          in (case name_attr h of
                Inl msg \<Rightarrow> r1\<lparr>r_database := cross_mark @ ascii '' Error: '' @ take 50 msg\<rparr>
              | Inr n \<Rightarrow>
                  let r2 = r1
                        \<lparr>r_database_name :=
                           Some (case n of None \<Rightarrow> check_mark @ ascii '' Connected'' | Some nm \<Rightarrow> nm),
                         r_connection_status := ascii ''Connected''\<rparr>
                  in (case list_collection_names h of
                        Inl msg \<Rightarrow>
                          r2\<lparr>r_database :=
                               warning_sign @ ascii ''  Connected but Error: '' @ take 50 msg\<rparr>
                      | Inr cs \<Rightarrow>
                          r2\<lparr>r_collections := take 10 cs,
                             r_database := check_mark @ ascii '' Connected & Working''\<rparr>)))"

section \<open>Responses\<close>

text \<open>
  What the framework sends for a route declared with a status code: the value
  returned as the body, unless the status code admits none (below 200, 204, 205,
  304); the status and detail of a raised \<open>HTTPException\<close>; a server error for any
  other exception.
\<close>

datatype 'a http_body = NoBody | Json 'a | Detail string | ServerFault

definition body_allowed :: "nat \<Rightarrow> bool" where
  "body_allowed code = (\<not> (code < 200 \<or> code = 204 \<or> code = 205 \<or> code = 304))"

definition respond :: "nat \<Rightarrow> exn + 'a \<Rightarrow> nat \<times> 'a http_body" where
  "respond code r =
     (case r of
        Inr v \<Rightarrow> (code, if body_allowed code then Json v else NoBody)
      | Inl (HTTPException s d) \<Rightarrow> (s, Detail d)
      | Inl e \<Rightarrow> (500, ServerFault))"

text \<open>\<open>@app.delete("/api/tasks/{task_id}", status_code=204)\<close>\<close>

definition http_delete_task :: "database \<Rightarrow> string \<Rightarrow> (nat \<times> wire http_body) \<times> database" where
  "http_delete_task db task_id =
     (case delete_task db task_id of (r, db1) \<Rightarrow> (respond 204 r, db1))"

text \<open>\<open>@app.get("/test")\<close>\<close>

definition http_test_database :: "db_handle option \<Rightarrow> ustr option \<Rightarrow> nat \<times> diagnostics http_body" where
  "http_test_database db getenv = respond 200 (Inr (test_database db getenv))"

section \<open>Notions of the specification\<close>

text \<open>A field of a partial update that carries no value: not sent, or sent as \<open>null\<close>.\<close>

fun no_value :: "'a field \<Rightarrow> bool" where
  "no_value (Val v) = False"
| "no_value f = True"

text \<open>The document a toggle at \<open>now\<close> leaves in place of the document \<open>d\<close> it read.\<close>

definition toggled :: "doc \<Rightarrow> datetime \<Rightarrow> doc" where
  "toggled d now = apply_set (toggle_update d now) d"

text \<open>The \<open>$set\<close> document a partial update at \<open>now\<close> sends when some field carries a value.\<close>

definition update_set :: "datetime \<Rightarrow> TaskUpdate \<Rightarrow> doc" where
  "update_set now p = AList.update ''updated_at'' (PDatetime now) (build_update p)"

text \<open>
  The fields a partial update supplies with a value that is not \<open>null\<close>, by the names of
  the request body, each with the value supplied.
\<close>

fun value_of :: "('a \<Rightarrow> pyval) \<Rightarrow> 'a field \<Rightarrow> pyval option" where
  "value_of f (Val v) = Some (f v)"
| "value_of f x = None"

definition supplied :: "TaskUpdate \<Rightarrow> string \<Rightarrow> pyval option" where
  "supplied p k =
     (if k = ''title'' then value_of PStr (tu_title p)
      else if k = ''completed'' then value_of PBool (tu_completed p)
      else if k = ''priority'' then value_of PStr (tu_priority p)
      else if k = ''due_date'' then value_of PDatetime (tu_due_date p)
      else if k = ''notes'' then value_of PStr (tu_notes p)
      else None)"

text \<open>
  The creation time a record is listed by: its \<open>created_at\<close>, and the earliest
  possible time for a record that lacks one.
\<close>

definition created_ts :: "doc \<Rightarrow> datetime" where
  "created_ts d = (case map_of d ''created_at'' of Some (PDatetime t) \<Rightarrow> t | _ \<Rightarrow> datetime_min)"

text \<open>
  A record of the data model, as far as listing reads it: it has an identifier, and
  its \<open>created_at\<close>, when present, is a date-time.
\<close>

definition well_formed :: "doc \<Rightarrow> bool" where
  "well_formed d =
     (map_of d ''_id'' \<noteq> None \<and>
      (case map_of d ''created_at'' of None \<Rightarrow> True | Some (PDatetime t) \<Rightarrow> True | Some v \<Rightarrow> False))"

text \<open>The key of an ascending stable sort that lists later creation times first.\<close>

definition neg_ts :: "doc \<Rightarrow> int" where
  "neg_ts d = - int (created_ts d)"

section \<open>Sample data\<close>

definition doc0 :: doc where
  "doc0 =
     [(''_id'', PObjectId (Oid ''0123456789abcdef01234567'')),
      (''title'', PStr ''Buy gifts''),
      (''created_at'', PDatetime 100)]"

definition patch0 :: TaskUpdate where
  "patch0 = \<lparr>tu_title = Unset, tu_completed = Val True, tu_priority = Unset, tu_due_date = Unset,
             tu_notes = Null\<rparr>"

definition docA :: doc where
  "docA = [(''_id'', PObjectId (Oid ''aaaaaaaaaaaaaaaaaaaaaaaa'')), (''title'', PStr ''a'')]"

definition docB :: doc where
  "docB =
     [(''_id'', PObjectId (Oid ''bbbbbbbbbbbbbbbbbbbbbbbb'')),
      (''title'', PStr ''b''),
      (''created_at'', PDatetime datetime_min)]"

definition docC :: doc where
  "docC =
     [(''_id'', PObjectId (Oid ''cccccccccccccccccccccccc'')),
      (''title'', PStr ''c''),
      (''created_at'', PDatetime 300)]"

section \<open>Facts about the store\<close>

lemma find_SomeD: "find P xs = Some x \<Longrightarrow> P x \<and> x \<in> set xs"
  by (induction xs) (auto split: if_splits)

lemma find_map_first:
  "find P xs = Some x \<Longrightarrow> P (f x) \<Longrightarrow> find P (map_first P f xs) = Some (f x)"
  by (induction xs) (auto split: if_splits)

lemma map_of_apply_set:
  "map_of (apply_set upd d) k =
     (case map_of (rev upd) k of Some v \<Rightarrow> Some v | None \<Rightarrow> map_of d k)"
  unfolding apply_set_def
proof (induction upd arbitrary: d)
  case Nil
  then show ?case by simp
next
  case (Cons a upd)
  obtain k' v' where a: "a = (k', v')" by (cases a)
  show ?case
    by (simp add: a Cons.IH update_conv' map_add_def split: option.splits)
qed

lemma has_id_apply_set:
  "has_id i d \<Longrightarrow> ''_id'' \<notin> fst ` set upd \<Longrightarrow> has_id i (apply_set upd d)"
  by (auto simp: has_id_def map_of_apply_set map_of_eq_None_iff
      split: option.splits dest!: map_of_SomeD intro: rev_image_eqI)

lemma has_id_nonempty: "has_id i d \<Longrightarrow> d \<noteq> []"
  by (auto simp: has_id_def)

lemma serialize_not_http: "serialize_task d \<noteq> Inl (HTTPException s m)"
  by (auto simp: serialize_task_def split: option.splits)

section \<open>Malformed and absent identifiers\<close>

text \<open>
  Claim C1. For get, partial update, toggle and delete and every path identifier: a
  malformed identifier raises the validation error (400) and leaves the database, with
  its log of store operations, as it was; a well-formed identifier that no record has
  raises the not-found error (404); a well-formed identifier never raises the
  validation error, so the two are never interchanged.
\<close>

theorem malformed_id_400_absent_id_404:
  "(\<not> is_valid tid \<longrightarrow>
      get_task db tid = (Inl (HTTPException 400 ''Invalid task id''), db) \<and>
      update_task db now tid p = (Inl (HTTPException 400 ''Invalid task id''), db) \<and>
      toggle_task db now tid = (Inl (HTTPException 400 ''Invalid task id''), db) \<and>
      delete_task db tid = (Inl (HTTPException 400 ''Invalid task id''), db)) \<and>
   (is_valid tid \<and> find (has_id (ObjectId tid)) (task db) = None \<longrightarrow>
      fst (get_task db tid) = Inl (HTTPException 404 ''Task not found'') \<and>
      fst (update_task db now tid p) = Inl (HTTPException 404 ''Task not found'') \<and>
      fst (toggle_task db now tid) = Inl (HTTPException 404 ''Task not found'') \<and>
      fst (delete_task db tid) = Inl (HTTPException 404 ''Task not found'')) \<and>
   (is_valid tid \<longrightarrow>
      fst (get_task db tid) \<noteq> Inl (HTTPException 400 m) \<and>
      fst (update_task db now tid p) \<noteq> Inl (HTTPException 400 m) \<and>
      fst (toggle_task db now tid) \<noteq> Inl (HTTPException 400 m) \<and>
      fst (delete_task db tid) \<noteq> Inl (HTTPException 400 m))"
proof (intro conjI impI)
  assume v: "is_valid tid \<and> find (has_id (ObjectId tid)) (task db) = None"
  then show g: "fst (get_task db tid) = Inl (HTTPException 404 ''Task not found'')"
    by (simp add: get_task_def find_one_def)
  from v show "fst (update_task db now tid p) = Inl (HTTPException 404 ''Task not found'')"
    by (simp add: update_task_def Let_def g update_one_def)
  from v show "fst (toggle_task db now tid) = Inl (HTTPException 404 ''Task not found'')"
    by (simp add: toggle_task_def find_one_def)
  from v show "fst (delete_task db tid) = Inl (HTTPException 404 ''Task not found'')"
    by (simp add: delete_task_def delete_one_def)
next
  assume v: "is_valid tid"
  then show g: "fst (get_task db tid) \<noteq> Inl (HTTPException 400 m)"
    by (auto simp: get_task_def find_one_def serialize_not_http split: option.splits)
  from v show "fst (update_task db now tid p) \<noteq> Inl (HTTPException 400 m)"
    by (auto simp: update_task_def Let_def g update_one_def find_one_def serialize_not_http
        split: option.splits prod.splits)
  from v show "fst (toggle_task db now tid) \<noteq> Inl (HTTPException 400 m)"
    by (auto simp: toggle_task_def update_one_def find_one_def serialize_not_http
        split: option.splits prod.splits)
  from v show "fst (delete_task db tid) \<noteq> Inl (HTTPException 400 m)"
    by (auto simp: delete_task_def delete_one_def split: option.splits prod.splits)
qed (simp_all add: get_task_def update_task_def toggle_task_def delete_task_def)

lemma fromhex_abc: "fromhex ''abc'' = None"
  by (simp add: fromhex.simps is_space_def is_hex_def)

lemma fromhex_blanks: "fromhex ''00 11 22 33 44 55 66 77 '' = Some ''0011223344556677''"
  by (simp add: fromhex.simps is_space_def is_hex_def lower_hex_def)

lemma fromhex_digits: "fromhex ''0123456789ABCDEF01234567'' = Some ''0123456789abcdef01234567''"
  by (simp add: fromhex.simps is_space_def is_hex_def lower_hex_def)

theorem malformed_id_400_absent_id_404_witness:
  "\<not> is_valid ''abc'' \<and>
   get_task \<lparr>task = [], oplog = []\<rparr> ''abc'' =
     (Inl (HTTPException 400 ''Invalid task id''), \<lparr>task = [], oplog = []\<rparr>) \<and>
   is_valid ''0123456789ABCDEF01234567'' \<and>
   find (has_id (ObjectId ''0123456789ABCDEF01234567'')) (task \<lparr>task = [], oplog = []\<rparr>) = None \<and>
   fst (delete_task \<lparr>task = [], oplog = []\<rparr> ''0123456789ABCDEF01234567'') =
     Inl (HTTPException 404 ''Task not found'') \<and>
   fst (get_task \<lparr>task = [], oplog = []\<rparr> ''0123456789ABCDEF01234567'') \<noteq>
     Inl (HTTPException 400 ''Invalid task id'') \<and>
   is_valid ''00 11 22 33 44 55 66 77 '' \<and>
   ObjectId ''00 11 22 33 44 55 66 77 '' = Oid ''0011223344556677'' \<and>
   find (has_id (ObjectId ''00 11 22 33 44 55 66 77 '')) (task \<lparr>task = [doc0], oplog = []\<rparr>) = None \<and>
   fst (get_task \<lparr>task = [doc0], oplog = []\<rparr> ''00 11 22 33 44 55 66 77 '') =
     Inl (HTTPException 404 ''Task not found'') \<and>
   fst (toggle_task \<lparr>task = [doc0], oplog = []\<rparr> 200 ''00 11 22 33 44 55 66 77 '') =
     Inl (HTTPException 404 ''Task not found'')"
proof -
  have a: "\<not> is_valid ''abc''" by (simp add: is_valid_def fromhex_abc)
  have b: "is_valid ''0123456789ABCDEF01234567''" by (simp add: is_valid_def fromhex_digits)
  have c: "is_valid ''00 11 22 33 44 55 66 77 ''" by (simp add: is_valid_def fromhex_blanks)
  have d: "ObjectId ''00 11 22 33 44 55 66 77 '' = Oid ''0011223344556677''"
    by (simp add: ObjectId_def fromhex_blanks)
  have e: "find (has_id (ObjectId ''00 11 22 33 44 55 66 77 '')) (task \<lparr>task = [doc0], oplog = []\<rparr>) = None"
    by (simp add: d has_id_def doc0_def)
  have f: "find (has_id (ObjectId ''0123456789ABCDEF01234567'')) (task \<lparr>task = [], oplog = []\<rparr>) = None"
    by simp
  show ?thesis
    using malformed_id_400_absent_id_404 [of "''abc''" "\<lparr>task = [], oplog = []\<rparr>" 0
        "\<lparr>tu_title = Unset, tu_completed = Unset, tu_priority = Unset, tu_due_date = Unset,
          tu_notes = Unset\<rparr>" "''Invalid task id''"]
      malformed_id_400_absent_id_404 [of "''0123456789ABCDEF01234567''" "\<lparr>task = [], oplog = []\<rparr>" 0
        "\<lparr>tu_title = Unset, tu_completed = Unset, tu_priority = Unset, tu_due_date = Unset,
          tu_notes = Unset\<rparr>" "''Invalid task id''"]
      malformed_id_400_absent_id_404 [of "''00 11 22 33 44 55 66 77 ''" "\<lparr>task = [doc0], oplog = []\<rparr>" 200
        "\<lparr>tu_title = Unset, tu_completed = Unset, tu_priority = Unset, tu_due_date = Unset,
          tu_notes = Unset\<rparr>" "''Invalid task id''"]
      a b c d e f
    by simp
qed

lemma fromhex0: "fromhex ''0123456789abcdef01234567'' = Some ''0123456789abcdef01234567''"
  by (simp add: fromhex.simps is_space_def is_hex_def lower_hex_def)

lemma valid0: "is_valid ''0123456789abcdef01234567''"
  by (simp add: is_valid_def fromhex0)

lemma oid0: "ObjectId ''0123456789abcdef01234567'' = Oid ''0123456789abcdef01234567''"
  by (simp add: ObjectId_def fromhex0)

lemma find_doc0:
  "find (has_id (ObjectId ''0123456789abcdef01234567'')) (task \<lparr>task = [doc0], oplog = []\<rparr>) = Some doc0"
  by (simp add: oid0 has_id_def doc0_def)

section \<open>Partial update without a value\<close>

lemma dump_field_filter:
  "(\<And>v. f v \<noteq> PNone) \<Longrightarrow>
   filter (\<lambda>(k, v). v \<noteq> PNone) (dump_field k f x) = (case x of Val v \<Rightarrow> [(k, f v)] | _ \<Rightarrow> [])"
  by (cases x) auto

lemma build_update_eq:
  "build_update p =
     (case tu_title p of Val v \<Rightarrow> [(''title'', PStr v)] | _ \<Rightarrow> []) @
     (case tu_completed p of Val v \<Rightarrow> [(''completed'', PBool v)] | _ \<Rightarrow> []) @
     (case tu_priority p of Val v \<Rightarrow> [(''priority'', PStr v)] | _ \<Rightarrow> []) @
     (case tu_due_date p of Val v \<Rightarrow> [(''due_date'', PDatetime v)] | _ \<Rightarrow> []) @
     (case tu_notes p of Val v \<Rightarrow> [(''notes'', PStr v)] | _ \<Rightarrow> [])"
  by (simp add: build_update_def model_dump_exclude_unset_def dump_field_filter)

lemma build_update_empty:
  "build_update p = [] \<longleftrightarrow>
     no_value (tu_title p) \<and> no_value (tu_completed p) \<and> no_value (tu_priority p) \<and>
     no_value (tu_due_date p) \<and> no_value (tu_notes p)"
  by (simp add: build_update_eq split: field.splits)

lemma get_task_task: "task (snd (get_task db tid)) = task db"
  by (simp add: get_task_def find_one_def logged_def split: option.splits)

text \<open>
  Claim C5. A partial update in which no field carries a value is the Get of the same
  identifier: the same result (success, 400 or 404) and the same database afterwards;
  the task collection is as it was, so no field of any record changes and no
  \<open>updated_at\<close> is stamped, and no update is sent to the store.
\<close>

theorem update_without_value_is_get:
  assumes "no_value (tu_title p)" "no_value (tu_completed p)" "no_value (tu_priority p)"
    "no_value (tu_due_date p)" "no_value (tu_notes p)"
  shows "update_task db now tid p = get_task db tid \<and>
         task (snd (update_task db now tid p)) = task db \<and>
         (\<forall>i upd. UpdateOne i upd \<in> set (oplog (snd (update_task db now tid p))) \<longrightarrow>
                  UpdateOne i upd \<in> set (oplog db))"
proof -
  have e: "build_update p = []" using assms by (simp add: build_update_empty)
  have 1: "update_task db now tid p = get_task db tid"
    by (simp add: update_task_def e get_task_def)
  have 2: "task (snd (get_task db tid)) = task db" by (rule get_task_task)
  have 3: "UpdateOne i upd \<in> set (oplog (snd (get_task db tid))) \<Longrightarrow> UpdateOne i upd \<in> set (oplog db)"
    for i upd
    by (auto simp: get_task_def find_one_def logged_def split: option.splits if_splits)
  show ?thesis using 1 2 3 by simp
qed

theorem update_without_value_is_get_witness:
  "no_value (tu_title \<lparr>tu_title = Null, tu_completed = Unset, tu_priority = Unset,
      tu_due_date = Unset, tu_notes = Null\<rparr>) \<and>
   update_task \<lparr>task = [doc0], oplog = []\<rparr> 200 ''0123456789abcdef01234567''
      \<lparr>tu_title = Null, tu_completed = Unset, tu_priority = Unset, tu_due_date = Unset, tu_notes = Null\<rparr>
     = get_task \<lparr>task = [doc0], oplog = []\<rparr> ''0123456789abcdef01234567'' \<and>
   task (snd (update_task \<lparr>task = [doc0], oplog = []\<rparr> 200 ''0123456789abcdef01234567''
      \<lparr>tu_title = Null, tu_completed = Unset, tu_priority = Unset, tu_due_date = Unset, tu_notes = Null\<rparr>))
     = [doc0] \<and>
   map_of doc0 ''updated_at'' = None"
proof -
  have n: "map_of doc0 ''updated_at'' = None" by (simp add: doc0_def)
  show ?thesis
    using update_without_value_is_get [of "\<lparr>tu_title = Null, tu_completed = Unset,
        tu_priority = Unset, tu_due_date = Unset, tu_notes = Null\<rparr>"
        "\<lparr>task = [doc0], oplog = []\<rparr>" 200 "''0123456789abcdef01234567''"] n
    by (simp add: get_task_task)
qed

section \<open>Toggle\<close>

lemma has_id_toggled: "has_id i d \<Longrightarrow> has_id i (toggled d now)"
  unfolding toggled_def by (rule has_id_apply_set) (auto simp: toggle_update_def)

lemma toggle_task_existing:
  assumes v: "is_valid tid" and f: "find (has_id (ObjectId tid)) (task db) = Some d"
  shows "toggle_task db now tid =
     (serialize_task (Some (toggled d now)),
      \<lparr>task = map_first (has_id (ObjectId tid)) (apply_set (toggle_update d now)) (task db),
       oplog = oplog db @ [FindOne (ObjectId tid), UpdateOne (ObjectId tid) (toggle_update d now),
                           FindOne (ObjectId tid)]\<rparr>)"
proof -
  have h: "has_id (ObjectId tid) d" using f by (simp add: find_SomeD)
  then have ne: "d \<noteq> []" by (rule has_id_nonempty)
  have f': "find (has_id (ObjectId tid))
              (map_first (has_id (ObjectId tid)) (apply_set (toggle_update d now)) (task db))
            = Some (toggled d now)"
    using find_map_first [OF f, of "apply_set (toggle_update d now)"] has_id_toggled [OF h, of now]
    by (simp add: toggled_def)
  show ?thesis
    using v f ne f'
    by (simp add: toggle_task_def find_one_def update_one_def logged_def)
qed

lemma toggle_task_find:
  assumes v: "is_valid tid" and f: "find (has_id (ObjectId tid)) (task db) = Some d"
  shows "find (has_id (ObjectId tid)) (task (snd (toggle_task db now tid))) = Some (toggled d now)"
proof -
  have h: "has_id (ObjectId tid) d" using f by (simp add: find_SomeD)
  show ?thesis
    using find_map_first [OF f, of "apply_set (toggle_update d now)"] has_id_toggled [OF h, of now]
    by (simp add: toggle_task_existing [OF assms] toggled_def)
qed

lemma toggled_completed:
  "map_of (toggled d now) ''completed'' =
     Some (PBool (\<not> py_bool (dict_get d ''completed'' (PBool False))))"
  by (simp add: toggled_def map_of_apply_set toggle_update_def)

lemma toggled_updated_at:
  "map_of (toggled d now) ''updated_at'' = Some (PDatetime now)"
  by (simp add: toggled_def map_of_apply_set toggle_update_def)

lemma toggled_other:
  "k \<noteq> ''completed'' \<Longrightarrow> k \<noteq> ''updated_at'' \<Longrightarrow> map_of (toggled d now) k = map_of d k"
  by (simp add: toggled_def map_of_apply_set toggle_update_def)

text \<open>
  Claim C10. Toggling an existing record writes, as \<open>completed\<close>, the negation of the
  truthiness of the stored \<open>completed\<close>, read as false when the field is absent: a
  record that lacks the field, or stores a falsy value in it, has \<open>completed = true\<close>
  afterwards, and the update sent to the store carries that value.
\<close>

theorem toggle_negates_truthiness:
  assumes "is_valid tid" and "find (has_id (ObjectId tid)) (task db) = Some d"
  shows "\<exists>d'. find (has_id (ObjectId tid)) (task (snd (toggle_task db now tid))) = Some d' \<and>
           map_of d' ''completed'' =
             Some (PBool (\<not> py_bool (dict_get d ''completed'' (PBool False)))) \<and>
           (map_of d ''completed'' = None \<or> (\<exists>v. map_of d ''completed'' = Some v \<and> \<not> py_bool v)
              \<longrightarrow> map_of d' ''completed'' = Some (PBool True)) \<and>
           UpdateOne (ObjectId tid)
             [(''completed'', PBool (\<not> py_bool (dict_get d ''completed'' (PBool False)))),
              (''updated_at'', PDatetime now)]
             \<in> set (oplog (snd (toggle_task db now tid)))"
proof -
  have c: "map_of d ''completed'' = None \<or> (\<exists>v. map_of d ''completed'' = Some v \<and> \<not> py_bool v)
              \<longrightarrow> map_of (toggled d now) ''completed'' = Some (PBool True)"
    by (auto simp: toggled_completed dict_get_def)
  have u: "UpdateOne (ObjectId tid)
             [(''completed'', PBool (\<not> py_bool (dict_get d ''completed'' (PBool False)))),
              (''updated_at'', PDatetime now)]
             \<in> set (oplog (snd (toggle_task db now tid)))"
    by (simp add: toggle_task_existing [OF assms] toggle_update_def)
  show ?thesis using toggle_task_find [OF assms] c u toggled_completed by blast
qed

theorem toggle_negates_truthiness_witness:
  "is_valid ''0123456789abcdef01234567'' \<and>
   find (has_id (ObjectId ''0123456789abcdef01234567'')) (task \<lparr>task = [doc0], oplog = []\<rparr>) = Some doc0 \<and>
   map_of doc0 ''completed'' = None \<and>
   (\<exists>d'. find (has_id (ObjectId ''0123456789abcdef01234567''))
            (task (snd (toggle_task \<lparr>task = [doc0], oplog = []\<rparr> 200 ''0123456789abcdef01234567'')))
            = Some d' \<and>
          map_of d' ''completed'' = Some (PBool True))"
proof -
  have n: "map_of doc0 ''completed'' = None" by (simp add: doc0_def)
  show ?thesis
    using toggle_negates_truthiness [OF valid0 find_doc0, of 200] find_doc0 n valid0 by auto
qed

lemma toggled_twice_bool:
  "py_bool (dict_get (toggled (toggled d n1) n2) ''completed'' (PBool False)) =
   py_bool (dict_get d ''completed'' (PBool False))"
  by (simp add: dict_get_def toggled_completed)

text \<open>
  Claim C7. For an existing task, two toggles in a row (at \<open>now1\<close>, then at \<open>now2\<close>)
  leave the completion flag as it was: its truthiness is that of the original record,
  and a stored boolean is stored again unchanged. Each toggle stamps \<open>updated_at\<close>
  with its own time, so with a clock that does not go back (\<open>now1 \<le> now2\<close>, and the
  stamp found in the record not later than \<open>now1\<close>) each stamp is no earlier than the
  one before it.
\<close>

theorem toggle_twice_restores_completed:
  assumes v: "is_valid tid" and f: "find (has_id (ObjectId tid)) (task db) = Some d"
    and m: "now1 \<le> now2"
    and prev: "\<forall>t. map_of d ''updated_at'' = Some (PDatetime t) \<longrightarrow> t \<le> now1"
  shows "\<exists>d1 d2.
     find (has_id (ObjectId tid)) (task (snd (toggle_task db now1 tid))) = Some d1 \<and>
     find (has_id (ObjectId tid))
       (task (snd (toggle_task (snd (toggle_task db now1 tid)) now2 tid))) = Some d2 \<and>
     py_bool (dict_get d2 ''completed'' (PBool False)) = py_bool (dict_get d ''completed'' (PBool False)) \<and>
     (\<forall>b. map_of d ''completed'' = Some (PBool b) \<longrightarrow> map_of d2 ''completed'' = Some (PBool b)) \<and>
     (\<exists>t1 t2. map_of d1 ''updated_at'' = Some (PDatetime t1) \<and>
              map_of d2 ''updated_at'' = Some (PDatetime t2) \<and> t1 \<le> t2 \<and>
              (\<forall>t. map_of d ''updated_at'' = Some (PDatetime t) \<longrightarrow> t \<le> t1))"
proof -
  let ?db1 = "snd (toggle_task db now1 tid)"
  have f1: "find (has_id (ObjectId tid)) (task ?db1) = Some (toggled d now1)"
    by (rule toggle_task_find [OF v f])
  have f2: "find (has_id (ObjectId tid)) (task (snd (toggle_task ?db1 now2 tid)))
              = Some (toggled (toggled d now1) now2)"
    by (rule toggle_task_find [OF v f1])
  have c: "\<forall>b. map_of d ''completed'' = Some (PBool b) \<longrightarrow>
             map_of (toggled (toggled d now1) now2) ''completed'' = Some (PBool b)"
    by (simp add: toggled_completed dict_get_def)
  show ?thesis
    using f1 f2 c m prev toggled_twice_bool [of d now1 now2] toggled_updated_at
    by (intro exI conjI) auto
qed

theorem toggle_twice_restores_completed_witness:
  "is_valid ''0123456789abcdef01234567'' \<and>
   find (has_id (ObjectId ''0123456789abcdef01234567'')) (task \<lparr>task = [doc0], oplog = []\<rparr>) = Some doc0 \<and>
   (200::nat) \<le> 300 \<and>
   map_of doc0 ''updated_at'' = None \<and>
   (\<exists>d2. find (has_id (ObjectId ''0123456789abcdef01234567''))
       (task (snd (toggle_task (snd (toggle_task \<lparr>task = [doc0], oplog = []\<rparr> 200
           ''0123456789abcdef01234567'')) 300 ''0123456789abcdef01234567''))) = Some d2 \<and>
     py_bool (dict_get d2 ''completed'' (PBool False)) = py_bool (dict_get doc0 ''completed'' (PBool False)))"
proof -
  have p: "\<forall>t. map_of doc0 ''updated_at'' = Some (PDatetime t) \<longrightarrow> t \<le> 200"
    by (simp add: doc0_def)
  have n: "map_of doc0 ''updated_at'' = None" by (simp add: doc0_def)
  have m: "(200::nat) \<le> 300" by simp
  show ?thesis
    using toggle_twice_restores_completed [OF valid0 find_doc0 m p] valid0 find_doc0 n by auto
qed

section \<open>Delete\<close>

lemma length_remove_first:
  "find P xs = Some x \<Longrightarrow> Suc (length (remove_first P xs)) = length xs"
  by (induction xs) (auto split: if_splits)

lemma filter_remove_first:
  "filter P (remove_first P xs) = tl (filter P xs)"
  by (induction xs) auto

lemma filter_not_remove_first:
  "filter (\<lambda>x. \<not> P x) (remove_first P xs) = filter (\<lambda>x. \<not> P x) xs"
  by (induction xs) auto

lemma find_filter_Nil: "filter P xs = [] \<Longrightarrow> find P xs = None"
  by (induction xs) (auto split: if_splits)

text \<open>
  Claim C8. Deleting with a well-formed identifier that an existing task has answers
  204 with no body, and removes that record: the collection is the old one without the
  first record of that identifier, one record shorter, every other record kept; where
  the identifier is unique in the collection, no record has it afterwards.
\<close>

theorem delete_existing_204_no_body:
  assumes v: "is_valid tid" and f: "find (has_id (ObjectId tid)) (task db) = Some d"
  shows "fst (http_delete_task db tid) = (204, NoBody) \<and>
         task (snd (http_delete_task db tid)) = remove_first (has_id (ObjectId tid)) (task db) \<and>
         Suc (length (task (snd (http_delete_task db tid)))) = length (task db) \<and>
         filter (has_id (ObjectId tid)) (task (snd (http_delete_task db tid)))
           = tl (filter (has_id (ObjectId tid)) (task db)) \<and>
         filter (\<lambda>x. \<not> has_id (ObjectId tid) x) (task (snd (http_delete_task db tid)))
           = filter (\<lambda>x. \<not> has_id (ObjectId tid) x) (task db) \<and>
         (length (filter (has_id (ObjectId tid)) (task db)) = 1 \<longrightarrow>
            find (has_id (ObjectId tid)) (task (snd (http_delete_task db tid))) = None)"
proof -
  have t: "task (snd (http_delete_task db tid)) = remove_first (has_id (ObjectId tid)) (task db)"
    using v f by (simp add: http_delete_task_def delete_task_def delete_one_def logged_def)
  have r: "fst (http_delete_task db tid) = (204, NoBody)"
    using v f by (simp add: http_delete_task_def delete_task_def delete_one_def respond_def body_allowed_def)
  have u: "length (filter (has_id (ObjectId tid)) (task db)) = 1 \<longrightarrow>
            find (has_id (ObjectId tid)) (remove_first (has_id (ObjectId tid)) (task db)) = None"
  proof
    assume "length (filter (has_id (ObjectId tid)) (task db)) = 1"
    then have "tl (filter (has_id (ObjectId tid)) (task db)) = []"
      by (cases "filter (has_id (ObjectId tid)) (task db)") auto
    then show "find (has_id (ObjectId tid)) (remove_first (has_id (ObjectId tid)) (task db)) = None"
      by (simp add: find_filter_Nil filter_remove_first)
  qed
  show ?thesis
    using r u by (simp add: t length_remove_first [OF f] filter_remove_first filter_not_remove_first)
qed

theorem delete_existing_204_no_body_witness:
  "is_valid ''0123456789abcdef01234567'' \<and>
   find (has_id (ObjectId ''0123456789abcdef01234567'')) (task \<lparr>task = [doc0], oplog = []\<rparr>) = Some doc0 \<and>
   length (filter (has_id (ObjectId ''0123456789abcdef01234567'')) (task \<lparr>task = [doc0], oplog = []\<rparr>)) = 1 \<and>
   fst (http_delete_task \<lparr>task = [doc0], oplog = []\<rparr> ''0123456789abcdef01234567'') = (204, NoBody) \<and>
   find (has_id (ObjectId ''0123456789abcdef01234567''))
     (task (snd (http_delete_task \<lparr>task = [doc0], oplog = []\<rparr> ''0123456789abcdef01234567''))) = None"
proof -
  have l: "length (filter (has_id (ObjectId ''0123456789abcdef01234567'')) (task \<lparr>task = [doc0], oplog = []\<rparr>)) = 1"
    by (simp add: oid0 has_id_def doc0_def)
  show ?thesis
    using delete_existing_204_no_body [OF valid0 find_doc0] valid0 find_doc0 l by simp
qed

section \<open>Diagnostics never fail\<close>

text \<open>
  Claim C9. The diagnostics route always answers 200 with the diagnostics as its body,
  whatever the database handle does: an error raised by \<open>list_collection_names\<close> or
  by reading the handle is reported in the field \<open>database\<close> as a fixed prefix followed
  by at most the first 50 characters of the error text, and the field \<open>collections\<close>
  holds at most 10 names (the first ten that the store lists).
\<close>

theorem diagnostics_always_200:
  "fst (http_test_database db getenv) = 200 \<and>
   snd (http_test_database db getenv) = Json (test_database db getenv) \<and>
   length (r_collections (test_database db getenv)) \<le> 10 \<and>
   r_database (test_database (Some \<lparr>name_attr = Inr n, list_collection_names = Inl msg\<rparr>) getenv)
     = warning_sign @ ascii ''  Connected but Error: '' @ take 50 msg \<and>
   r_database (test_database (Some \<lparr>name_attr = Inl msg, list_collection_names = l\<rparr>) getenv)
     = cross_mark @ ascii '' Error: '' @ take 50 msg \<and>
   length (take 50 msg) \<le> 50 \<and>
   r_collections (test_database (Some \<lparr>name_attr = Inr n, list_collection_names = Inr cs\<rparr>) getenv)
     = take 10 cs"
  by (simp add: http_test_database_def respond_def body_allowed_def test_database_def Let_def
      initial_response_def split: option.splits sum.splits)

section \<open>Creation defaults\<close>

lemma new_task_completed: "t_completed (new_task p) = False"
  by (simp add: new_task_def)

text \<open>
  Claim C2. The record that a create request builds always has \<open>completed = false\<close>,
  whatever the body holds, and so has the document inserted into the store; when the
  priority is not sent, is \<open>null\<close> or is the empty string, the record built and the
  document inserted have \<open>priority = "medium"\<close>.
\<close>

theorem create_defaults:
  "t_completed (new_task p) = False \<and>
   (\<exists>d. task (snd (create_task db now new_id p)) = task db @ [d] \<and>
        InsertOne d \<in> set (oplog (snd (create_task db now new_id p))) \<and>
        map_of d ''completed'' = Some (PBool False) \<and>
        (tc_priority p = Unset \<or> tc_priority p = Null \<or> tc_priority p = Val [] \<longrightarrow>
           t_priority (new_task p) = ''medium'' \<and> map_of d ''priority'' = Some (PStr ''medium'')))"
proof -
  let ?d = "task_document (ObjectId new_id) now (new_task p)"
  have 1: "task (snd (create_task db now new_id p)) = task db @ [?d]"
    by (simp add: create_task_def create_document_def Let_def find_one_def logged_def)
  have 2: "InsertOne ?d \<in> set (oplog (snd (create_task db now new_id p)))"
    by (simp add: create_task_def create_document_def Let_def find_one_def logged_def)
  have 3: "map_of ?d ''completed'' = Some (PBool False)"
    by (simp add: task_document_def new_task_def)
  have 4: "tc_priority p = Unset \<or> tc_priority p = Null \<or> tc_priority p = Val [] \<longrightarrow>
           t_priority (new_task p) = ''medium'' \<and> map_of ?d ''priority'' = Some (PStr ''medium'')"
    by (auto simp: task_document_def new_task_def)
  show ?thesis using 1 2 3 4 new_task_completed by blast
qed

theorem create_defaults_witness:
  "tc_priority \<lparr>tc_title = ''Buy gifts'', tc_priority = Unset, tc_due_date = Unset, tc_notes = Unset\<rparr> = Unset \<and>
   t_priority (new_task \<lparr>tc_title = ''Buy gifts'', tc_priority = Unset, tc_due_date = Unset, tc_notes = Unset\<rparr>) = ''medium'' \<and>
   t_completed (new_task \<lparr>tc_title = ''Buy gifts'', tc_priority = Unset, tc_due_date = Unset, tc_notes = Unset\<rparr>) = False"
  using create_defaults [of "\<lparr>tc_title = ''Buy gifts'', tc_priority = Unset, tc_due_date = Unset, tc_notes = Unset\<rparr>"
      "\<lparr>task = [], oplog = []\<rparr>" 100 "''0123456789abcdef01234567''"]
  by auto

section \<open>Partial update with a value\<close>


lemma map_of_build_update: "map_of (build_update p) k = supplied p k"
  by (cases "tu_title p"; cases "tu_completed p"; cases "tu_priority p"; cases "tu_due_date p";
      cases "tu_notes p") (simp_all add: build_update_eq supplied_def)



lemma map_of_update_set:
  "map_of (update_set now p) k = (if k = ''updated_at'' then Some (PDatetime now) else supplied p k)"
  by (simp add: update_set_def update_conv' map_of_build_update)


lemma supplied_keys:
  "supplied p k = Some v \<Longrightarrow> k \<in> {''title'', ''completed'', ''priority'', ''due_date'', ''notes''}"
  by (auto simp: supplied_def split: if_splits)

lemma key_not_in_update_set:
  "k \<noteq> ''updated_at'' \<Longrightarrow> supplied p k = None \<Longrightarrow> k \<notin> fst ` set (update_set now p)"
  using map_of_update_set [of now p k] by (simp add: map_of_eq_None_iff)


lemma has_id_apply_update_set:
  "has_id i d \<Longrightarrow> has_id i (apply_set (update_set now p) d)"
  by (rule has_id_apply_set) (auto simp: key_not_in_update_set supplied_def)

lemma update_task_existing:
  assumes v: "is_valid tid" and f: "find (has_id (ObjectId tid)) (task db) = Some d"
    and ne: "build_update p \<noteq> []"
  shows "update_task db now tid p =
     (serialize_task (Some (apply_set (update_set now p) d)),
      \<lparr>task = map_first (has_id (ObjectId tid)) (apply_set (update_set now p)) (task db),
       oplog = oplog db @ [UpdateOne (ObjectId tid) (update_set now p), FindOne (ObjectId tid)]\<rparr>)"
proof -
  have h: "has_id (ObjectId tid) d" using f by (simp add: find_SomeD)
  have f': "find (has_id (ObjectId tid))
              (map_first (has_id (ObjectId tid)) (apply_set (update_set now p)) (task db))
            = Some (apply_set (update_set now p) d)"
    using find_map_first [OF f, of "apply_set (update_set now p)"] has_id_apply_update_set [OF h]
    by simp
  show ?thesis
    using v f ne f'
    by (simp add: update_task_def Let_def find_one_def update_one_def logged_def update_set_def)
qed

lemma update_task_absent:
  assumes v: "is_valid tid" and f: "find (has_id (ObjectId tid)) (task db) = None"
    and ne: "build_update p \<noteq> []"
  shows "snd (update_task db now tid p) =
      \<lparr>task = task db, oplog = oplog db @ [UpdateOne (ObjectId tid) (update_set now p)]\<rparr>"
  using v f ne
  by (simp add: update_task_def Let_def update_one_def logged_def update_set_def)

lemma get_task_oplog:
  "UpdateOne i upd \<in> set (drop (length (oplog db)) (oplog (snd (get_task db tid)))) \<Longrightarrow> False"
  by (auto simp: get_task_def find_one_def logged_def split: option.splits if_splits)

lemma update_task_new_ops:
  "UpdateOne i upd \<in> set (drop (length (oplog db)) (oplog (snd (update_task db now tid p))))
   \<Longrightarrow> upd = update_set now p \<and> build_update p \<noteq> [] \<and> is_valid tid \<and> i = ObjectId tid"
proof -
  assume a: "UpdateOne i upd \<in> set (drop (length (oplog db)) (oplog (snd (update_task db now tid p))))"
  show ?thesis
  proof (cases "is_valid tid")
    case False
    with a show ?thesis by (simp add: update_task_def)
  next
    case v: True
    show ?thesis
    proof (cases "build_update p = []")
      case True
      then have "update_task db now tid p = get_task db tid"
        by (simp add: update_task_def get_task_def)
      with a get_task_oplog show ?thesis by metis
    next
      case ne: False
      show ?thesis
      proof (cases "find (has_id (ObjectId tid)) (task db)")
        case None
        with a v ne show ?thesis by (simp add: update_task_absent)
      next
        case (Some d)
        with a v ne show ?thesis by (auto simp: update_task_existing)
      qed
    qed
  qed
qed

section \<open>The creation time is never written\<close>

lemma map_map_first:
  "(\<And>x. g (f x) = g x) \<Longrightarrow> map g (map_first P f xs) = map g xs"
  by (induction xs) auto

lemma created_at_apply_set:
  "''created_at'' \<notin> fst ` set upd \<Longrightarrow> map_of (apply_set upd d) ''created_at'' = map_of d ''created_at''"
  by (auto simp: map_of_apply_set map_of_eq_None_iff split: option.splits dest!: map_of_SomeD
      intro: rev_image_eqI)

lemma created_at_not_in_update_set: "''created_at'' \<notin> fst ` set (update_set now p)"
  by (rule key_not_in_update_set) (simp_all add: supplied_def)

lemma created_at_not_in_toggle_update: "''created_at'' \<notin> fst ` set (toggle_update d now)"
  by (simp add: toggle_update_def)

lemma update_task_created_at:
  "map (\<lambda>d. map_of d ''created_at'') (task (snd (update_task db now tid p)))
     = map (\<lambda>d. map_of d ''created_at'') (task db)"
proof (cases "is_valid tid \<and> build_update p \<noteq> []")
  case False
  then have "update_task db now tid p = get_task db tid"
    by (auto simp: update_task_def get_task_def)
  then show ?thesis by (simp add: get_task_task)
next
  case True
  show ?thesis
  proof (cases "find (has_id (ObjectId tid)) (task db)")
    case None
    with True show ?thesis by (simp add: update_task_absent)
  next
    case (Some d)
    with True show ?thesis
      by (simp add: update_task_existing map_map_first created_at_apply_set
          created_at_not_in_update_set)
  qed
qed

lemma toggle_task_absent:
  "find (has_id (ObjectId tid)) (task db) = None \<Longrightarrow>
   task (snd (toggle_task db now tid)) = task db \<and>
   set (oplog (snd (toggle_task db now tid))) \<subseteq> set (oplog db) \<union> {FindOne (ObjectId tid)}"
  by (auto simp: toggle_task_def find_one_def logged_def)

lemma toggle_task_invalid:
  "\<not> is_valid tid \<Longrightarrow> toggle_task db now tid = (Inl (HTTPException 400 ''Invalid task id''), db)"
  by (simp add: toggle_task_def)

lemma toggle_task_created_at:
  "map (\<lambda>d. map_of d ''created_at'') (task (snd (toggle_task db now tid)))
     = map (\<lambda>d. map_of d ''created_at'') (task db)"
proof (cases "is_valid tid")
  case False
  then show ?thesis by (simp add: toggle_task_invalid)
next
  case True
  show ?thesis
  proof (cases "find (has_id (ObjectId tid)) (task db)")
    case None
    then show ?thesis by (simp add: toggle_task_absent)
  next
    case (Some d)
    with True show ?thesis
      by (simp add: toggle_task_existing map_map_first created_at_apply_set
          created_at_not_in_toggle_update)
  qed
qed

lemma toggle_task_new_ops:
  "UpdateOne i upd \<in> set (drop (length (oplog db)) (oplog (snd (toggle_task db now tid))))
   \<Longrightarrow> \<exists>d. upd = toggle_update d now"
proof (cases "is_valid tid")
  case False
  assume "UpdateOne i upd \<in> set (drop (length (oplog db)) (oplog (snd (toggle_task db now tid))))"
  with False show ?thesis by (simp add: toggle_task_invalid)
next
  case True
  assume a: "UpdateOne i upd \<in> set (drop (length (oplog db)) (oplog (snd (toggle_task db now tid))))"
  show ?thesis
  proof (cases "find (has_id (ObjectId tid)) (task db)")
    case None
    with a True show ?thesis by (simp add: toggle_task_def find_one_def logged_def)
  next
    case (Some d)
    with a True show ?thesis by (auto simp: toggle_task_existing)
  qed
qed

text \<open>
  Claim C6. No partial update and no toggle changes \<open>created_at\<close>: in every record of
  the collection the field is after the call what it was before, and no \<open>$set\<close>
  document that either handler sends to the store during the call names \<open>created_at\<close>.
\<close>

theorem created_at_never_updated:
  "map (\<lambda>d. map_of d ''created_at'') (task (snd (update_task db now tid p)))
     = map (\<lambda>d. map_of d ''created_at'') (task db) \<and>
   map (\<lambda>d. map_of d ''created_at'') (task (snd (toggle_task db now tid)))
     = map (\<lambda>d. map_of d ''created_at'') (task db) \<and>
   (\<forall>i upd. UpdateOne i upd \<in> set (drop (length (oplog db)) (oplog (snd (update_task db now tid p))))
      \<longrightarrow> ''created_at'' \<notin> fst ` set upd) \<and>
   (\<forall>i upd. UpdateOne i upd \<in> set (drop (length (oplog db)) (oplog (snd (toggle_task db now tid))))
      \<longrightarrow> ''created_at'' \<notin> fst ` set upd)"
proof (intro conjI allI impI)
  fix i upd
  assume "UpdateOne i upd \<in> set (drop (length (oplog db)) (oplog (snd (update_task db now tid p))))"
  then have "upd = update_set now p" by (simp add: update_task_new_ops)
  then show "''created_at'' \<notin> fst ` set upd" by (simp add: created_at_not_in_update_set)
next
  fix i upd
  assume "UpdateOne i upd \<in> set (drop (length (oplog db)) (oplog (snd (toggle_task db now tid))))"
  then obtain d where "upd = toggle_update d now" using toggle_task_new_ops by blast
  then show "''created_at'' \<notin> fst ` set upd" by (simp add: created_at_not_in_toggle_update)
qed (rule update_task_created_at toggle_task_created_at)+

lemma build_update_patch0: "build_update patch0 = [(''completed'', PBool True)]"
  by (simp add: build_update_eq patch0_def)

lemma update_set_patch0:
  "update_set now patch0 = [(''completed'', PBool True), (''updated_at'', PDatetime now)]"
  by (simp add: update_set_def build_update_patch0)

lemma update_task_patch0_oplog:
  "oplog (snd (update_task \<lparr>task = [doc0], oplog = []\<rparr> 200 ''0123456789abcdef01234567'' patch0))
     = [UpdateOne (Oid ''0123456789abcdef01234567'') [(''completed'', PBool True), (''updated_at'', PDatetime 200)],
        FindOne (Oid ''0123456789abcdef01234567'')]"
  using update_task_existing [OF valid0 find_doc0, of patch0 200]
  by (simp add: build_update_patch0 update_set_patch0 oid0)

theorem created_at_never_updated_witness:
  "UpdateOne (Oid ''0123456789abcdef01234567'') [(''completed'', PBool True), (''updated_at'', PDatetime 200)]
     \<in> set (drop (length (oplog \<lparr>task = [doc0], oplog = []\<rparr>))
          (oplog (snd (update_task \<lparr>task = [doc0], oplog = []\<rparr> 200 ''0123456789abcdef01234567'' patch0)))) \<and>
   ''created_at'' \<notin> fst ` set [(''completed'', PBool True), (''updated_at'', PDatetime (200::nat))] \<and>
   map (\<lambda>d. map_of d ''created_at'')
     (task (snd (update_task \<lparr>task = [doc0], oplog = []\<rparr> 200 ''0123456789abcdef01234567'' patch0)))
     = [Some (PDatetime 100)]"
proof -
  have c: "map (\<lambda>d. map_of d ''created_at'') (task \<lparr>task = [doc0], oplog = []\<rparr>) = [Some (PDatetime 100)]"
    by (simp add: doc0_def)
  show ?thesis
    using created_at_never_updated [of "\<lparr>task = [doc0], oplog = []\<rparr>" 200 "''0123456789abcdef01234567''" patch0] c
    by (simp add: update_task_patch0_oplog)
qed

section \<open>What a partial update writes\<close>





section \<open>Listing, newest first\<close>

lemma created_key_wf: "well_formed d \<Longrightarrow> created_key d = PDatetime (created_ts d)"
  by (auto simp: well_formed_def created_key_def created_ts_def dict_get_def
      split: option.splits pyval.splits)

lemma insert_desc_wf:
  "well_formed x \<Longrightarrow> list_all well_formed ys \<Longrightarrow>
   insert_desc created_key x ys = Inr (insort_key neg_ts x ys)"
  by (induction ys) (auto simp: created_key_wf neg_ts_def)

lemma sorted_desc_wf:
  "list_all well_formed xs \<Longrightarrow> sorted_desc created_key xs = Inr (sort_key neg_ts xs)"
proof (induction xs)
  case Nil
  then show ?case by simp
next
  case (Cons x xs)
  then have "list_all well_formed (sort_key neg_ts xs)" by (simp add: list_all_iff)
  with Cons show ?case by (simp add: insert_desc_wf)
qed

lemma serialize_task_wf:
  "well_formed d \<Longrightarrow> \<exists>w. serialize_task (Some d) = Inr w"
  by (auto simp: well_formed_def serialize_task_def)

lemma serialize_all_wf:
  "list_all well_formed ds \<Longrightarrow>
   \<exists>ws. serialize_all ds = Inr ws \<and> list_all2 (\<lambda>d w. serialize_task (Some d) = Inr w) ds ws"
proof (induction ds)
  case Nil
  then show ?case by simp
next
  case (Cons d ds)
  then obtain ws where ws: "serialize_all ds = Inr ws"
    "list_all2 (\<lambda>d w. serialize_task (Some d) = Inr w) ds ws" by auto
  from Cons.prems obtain w where w: "serialize_task (Some d) = Inr w"
    using serialize_task_wf by auto
  show ?case using ws w by simp
qed

lemma sorted_neg_ts:
  "sorted (map neg_ts ds) \<Longrightarrow> sorted_wrt (\<lambda>a b. created_ts b \<le> created_ts a) ds"
  by (simp add: sorted_map neg_ts_def)

lemma filter_neg_ts:
  "filter (\<lambda>d. created_ts d = t) ds = filter (\<lambda>d. neg_ts d = - int t) ds"
  by (simp add: neg_ts_def)

lemma later_first:
  assumes s: "sorted_wrt (\<lambda>a b. created_ts b \<le> created_ts a) ds"
    and i: "i < length ds" and j: "j < length ds" and l: "created_ts (ds ! j) < created_ts (ds ! i)"
  shows "i < j"
proof (rule ccontr)
  assume "\<not> i < j"
  then have "j < i \<or> i = j" by auto
  then show False
  proof
    assume "j < i"
    with s i have "created_ts (ds ! i) \<le> created_ts (ds ! j)"
      by (simp add: sorted_wrt_iff_nth_less)
    with l show False by simp
  next
    assume "i = j"
    with l show False by simp
  qed
qed

text \<open>
  Claim C3, amended. For a store whose records have an identifier and a \<open>created_at\<close>
  that, where present, is a date-time, listing succeeds and returns the serialization of
  all task records, sorted by creation time descending, a record without \<open>created_at\<close>
  counting as the earliest possible time and records of equal time keeping the order
  of the store; so a record whose creation time is later than that of another is listed
  before it, and a record without \<open>created_at\<close> is listed after every record whose
  \<open>created_at\<close> is later than the earliest possible time.
\<close>

theorem list_tasks_newest_first:
  assumes wf: "list_all well_formed (task db)"
  shows "\<exists>ds ws. fst (list_tasks db) = Inr ws \<and>
     list_all2 (\<lambda>d w. serialize_task (Some d) = Inr w) ds ws \<and>
     mset ds = mset (task db) \<and>
     sorted_wrt (\<lambda>a b. created_ts b \<le> created_ts a) ds \<and>
     (\<forall>t. filter (\<lambda>d. created_ts d = t) ds = filter (\<lambda>d. created_ts d = t) (task db)) \<and>
     (\<forall>i j. i < length ds \<and> j < length ds \<and> created_ts (ds ! j) < created_ts (ds ! i)
        \<longrightarrow> i < j)"
proof -
  let ?ds = "sort_key neg_ts (task db)"
  have wf': "list_all well_formed ?ds" using wf by (simp add: list_all_iff)
  obtain ws where ws: "serialize_all ?ds = Inr ws"
    "list_all2 (\<lambda>d w. serialize_task (Some d) = Inr w) ?ds ws"
    using serialize_all_wf [OF wf'] by auto
  have 1: "fst (list_tasks db) = Inr ws"
    by (simp add: list_tasks_def get_documents_def sorted_desc_wf [OF wf] ws)
  have 2: "mset ?ds = mset (task db)" by simp
  have 3: "sorted_wrt (\<lambda>a b. created_ts b \<le> created_ts a) ?ds"
    by (rule sorted_neg_ts) (rule sorted_sort_key)
  have 4: "\<forall>t. filter (\<lambda>d. created_ts d = t) ?ds = filter (\<lambda>d. created_ts d = t) (task db)"
    by (simp add: filter_neg_ts sort_key_stable)
  have 5: "\<forall>i j. i < length ?ds \<and> j < length ?ds \<and> created_ts (?ds ! j) < created_ts (?ds ! i)
        \<longrightarrow> i < j"
    using later_first [OF 3] by blast
  show ?thesis using 1 ws(2) 2 3 4 5 by blast
qed

lemma wf_samples: "well_formed docA" "well_formed docB" "well_formed docC" "well_formed doc0"
  by (simp_all add: well_formed_def docA_def docB_def docC_def doc0_def)

lemma list_tasks_AB:
  "fst (list_tasks \<lparr>task = [docA, docB], oplog = []\<rparr>) =
     Inr [[(''title'', Raw (PStr ''a'')), (''id'', Raw (PStr ''aaaaaaaaaaaaaaaaaaaaaaaa''))],
          [(''title'', Raw (PStr ''b'')), (''created_at'', IsoString datetime_min),
           (''id'', Raw (PStr ''bbbbbbbbbbbbbbbbbbbbbbbb''))]]"
  by (simp add: list_tasks_def get_documents_def logged_def created_key_def dict_get_def
      docA_def docB_def serialize_task_def iso_field_def)

text \<open>
  The claim as stated fails where a record has the earliest possible time as its
  \<open>created_at\<close>: a record without \<open>created_at\<close> that precedes it in the store is
  listed before it.
\<close>

theorem list_tasks_missing_before_present:
  "map_of docA ''created_at'' = None \<and>
   map_of docB ''created_at'' = Some (PDatetime datetime_min) \<and>
   fst (list_tasks \<lparr>task = [docA, docB], oplog = []\<rparr>) =
     Inr [[(''title'', Raw (PStr ''a'')), (''id'', Raw (PStr ''aaaaaaaaaaaaaaaaaaaaaaaa''))],
          [(''title'', Raw (PStr ''b'')), (''created_at'', IsoString datetime_min),
           (''id'', Raw (PStr ''bbbbbbbbbbbbbbbbbbbbbbbb''))]]"
  by (simp add: list_tasks_AB) (simp add: docA_def docB_def)

theorem list_tasks_newest_first_witness:
  "list_all well_formed (task \<lparr>task = [docA, docC], oplog = []\<rparr>) \<and>
   (\<exists>ds ws. fst (list_tasks \<lparr>task = [docA, docC], oplog = []\<rparr>) = Inr ws \<and>
      mset ds = mset [docA, docC] \<and>
      sorted_wrt (\<lambda>a b. created_ts b \<le> created_ts a) ds)"
  using list_tasks_newest_first [of "\<lparr>task = [docA, docC], oplog = []\<rparr>"] wf_samples
  by auto

end
